theory Spec2Isabelle
  imports Complex_Main
begin

section \<open>The video-to-GIF converter of gif\_creator.py\<close>

text \<open>
  The embedding follows \<^verbatim>\<open>VideoToGifConverter\<close> of \<^verbatim>\<open>src/gif_creator.py\<close>.
  Python's unbounded integers are \<^typ>\<open>int\<close>. Python's floats are idealised as exact
  rationals (\<^typ>\<open>rat\<close>): rounding error, infinities and NaN are not modelled. The
  concrete inputs evaluated below only involve values on which binary floating point
  is exact (small integers and dyadic fractions), so the source computes the same
  numbers there. Exceptions are values of \<open>py_error\<close>.
\<close>

subsection \<open>Python primitives\<close>

datatype py_error = ValueError | ZeroDivisionError | IndexError

text \<open>\<^verbatim>\<open>int(x)\<close> on a float truncates towards zero.\<close>

definition py_int :: "rat \<Rightarrow> int" where
  "py_int x = (if 0 \<le> x then \<lfloor>x\<rfloor> else \<lceil>x\<rceil>)"

subsection \<open>The opened video and the converter object\<close>

text \<open>
  \<^verbatim>\<open>cv2.VideoCapture\<close>: whether the file opened, the four properties read by
  \<^verbatim>\<open>__init__\<close> (OpenCV reports every property as a float), and for each frame index
  whether seeking there and reading succeeds (\<^verbatim>\<open>ret\<close> of \<^verbatim>\<open>cap.read()\<close>).
\<close>

record capture =
  is_opened :: bool
  prop_fps :: rat
  prop_frame_count :: rat
  prop_frame_width :: rat
  prop_frame_height :: rat
  read_ok :: "int \<Rightarrow> bool"

record converter =
  self_cap :: capture
  self_fps :: rat
  self_total_frames :: int
  self_width :: int
  self_height :: int
  self_duration :: rat

text \<open>\<^verbatim>\<open>__init__\<close>, lines 22-33. The float division by a zero fps raises.\<close>

definition init :: "capture \<Rightarrow> py_error + converter" where
  "init cap =
     (if \<not> is_opened cap then Inl ValueError
      else
        let fps = prop_fps cap;
            total_frames = py_int (prop_frame_count cap);
            width = py_int (prop_frame_width cap);
            height = py_int (prop_frame_height cap)
        in if fps = 0 then Inl ZeroDivisionError
           else Inr \<lparr> self_cap = cap, self_fps = fps, self_total_frames = total_frames,
                      self_width = width, self_height = height,
                      self_duration = of_int total_frames / fps \<rparr>)"

subsection \<open>create\_gif, lines 58-87: time window, resize target, frame sampling\<close>

text \<open>The local variables of \<^verbatim>\<open>create_gif\<close> once line 87 has run.\<close>

record locals =
  clamped_stop_time :: rat
  effective_duration :: rat
  start_frame :: int
  end_frame :: int
  effective_frames :: int
  scale_factor :: rat
  new_width :: int
  new_height :: int
  output_frames_count :: int
  frame_interval :: rat
  frame_indices :: "int list"

text \<open>
  Lines 71-78. \<^verbatim>\<open>if width and width < self.width\<close>: a width of \<open>None\<close> or \<open>0\<close> is
  falsy. The division \<^verbatim>\<open>width / self.width\<close> is between two ints and raises on a
  zero divisor. The result is \<open>(scale_factor, new_width, new_height)\<close>.
\<close>

definition resize_params :: "converter \<Rightarrow> int option \<Rightarrow> py_error + (rat \<times> int \<times> int)" where
  "resize_params c width =
     (case width of
        None \<Rightarrow> Inr (1, self_width c, self_height c)
      | Some w \<Rightarrow>
          if w \<noteq> 0 \<and> w < self_width c then
            (if self_width c = 0 then Inl ZeroDivisionError
             else
               let scale = of_int w / of_int (self_width c)
               in Inr (scale, w, py_int (of_int (self_height c) * scale)))
          else Inr (1, self_width c, self_height c))"

text \<open>
  Lines 58-61: the stop time defaults to the duration of the video and is clamped to it.
\<close>

definition clamp_stop_time :: "converter \<Rightarrow> rat option \<Rightarrow> rat" where
  "clamp_stop_time c stop_time =
     (let stop_time = (case stop_time of None \<Rightarrow> self_duration c | Some s \<Rightarrow> s)
      in min stop_time (self_duration c))"

text \<open>
  Lines 62-87 in the order of the source: the window is validated, the frame numbers
  are truncated, the resize target is computed, and the indices are sampled.
  \<^verbatim>\<open>effective_frames / output_frames_count\<close> divides two ints and raises when the
  count is zero; \<^verbatim>\<open>range(n)\<close> is empty for \<open>n \<le> 0\<close>.
\<close>

definition plan_of ::
  "converter \<Rightarrow> rat \<Rightarrow> int option \<Rightarrow> int \<Rightarrow> rat \<Rightarrow> rat option \<Rightarrow> py_error + locals" where
  "plan_of c duration width fps start_time stop_time =
     (let stop2 = clamp_stop_time c stop_time
      in if stop2 \<le> start_time then Inl ValueError
         else
           let eff_duration = stop2 - start_time;
               sf = py_int (start_time * self_fps c);
               ef = py_int (stop2 * self_fps c);
               eff = ef - sf
           in case resize_params c width of
                Inl e \<Rightarrow> Inl e
              | Inr (scale, nw, nh) \<Rightarrow>
                  let cnt = py_int (duration * of_int fps)
                  in if cnt = 0 then Inl ZeroDivisionError
                     else
                       let interval = of_int eff / of_int cnt
                       in Inr \<lparr> clamped_stop_time = stop2,
                                 effective_duration = eff_duration,
                                 start_frame = sf,
                                 end_frame = ef,
                                 effective_frames = eff,
                                 scale_factor = scale,
                                 new_width = nw,
                                 new_height = nh,
                                 output_frames_count = cnt,
                                 frame_interval = interval,
                                 frame_indices =
                                   map (\<lambda>i. sf + min (py_int (of_int i * interval)) (eff - 1))
                                       [0..cnt - 1] \<rparr>)"

subsection \<open>create\_gif, lines 89-105: decoding and resizing the sampled frames\<close>

text \<open>
  A decoded frame is kept as the source index it was read from and its pixel
  dimensions. A frame read from the capture has the dimensions of the video.
\<close>

datatype frame = Frame (src_index: int) (fwidth: int) (fheight: int)

text \<open>The loop over \<^verbatim>\<open>frame_indices\<close>: a failed read is skipped with \<^verbatim>\<open>continue\<close>.\<close>

fun collect_frames :: "converter \<Rightarrow> rat \<Rightarrow> int \<Rightarrow> int \<Rightarrow> int list \<Rightarrow> frame list" where
  "collect_frames c scale nw nh [] = []"
| "collect_frames c scale nw nh (frame_idx # rest) =
     (if \<not> read_ok (self_cap c) frame_idx then collect_frames c scale nw nh rest
      else
        let frame_rgb = Frame frame_idx (self_width c) (self_height c);
            frame_rgb = (if scale \<noteq> 1 then Frame frame_idx nw nh else frame_rgb)
        in frame_rgb # collect_frames c scale nw nh rest)"

subsection \<open>create\_gif, lines 108-116, and \_save\_optimized\_gif: the two writers\<close>

text \<open>
  The file written is recorded as the call made to the external writer, with the
  arguments the source passes. \<open>PIL_save\<close> is \<^verbatim>\<open>pil_frames[0].save(...)\<close> with its
  \<^verbatim>\<open>duration\<close> in milliseconds; \<open>Imageio_mimsave\<close> is \<^verbatim>\<open>imageio.mimsave(...)\<close> with
  its \<^verbatim>\<open>duration\<close> in seconds.
\<close>

datatype writer_call =
    PIL_save string frame bool "frame list" rat int bool int
  | Imageio_mimsave string "frame list" rat int

text \<open>
  \<^verbatim>\<open>_save_optimized_gif\<close>, lines 126-142: \<^verbatim>\<open>pil_frames[0]\<close> raises on an empty list.
\<close>

definition save_optimized_gif :: "frame list \<Rightarrow> string \<Rightarrow> rat \<Rightarrow> py_error + writer_call" where
  "save_optimized_gif frames output_path frame_duration =
     (case frames of
        [] \<Rightarrow> Inl IndexError
      | f0 # fs \<Rightarrow> Inr (PIL_save output_path f0 True fs (frame_duration * 1000) 0 True 85))"

text \<open>
  \<^verbatim>\<open>create_gif\<close>, the whole method. \<open>pil_available\<close> is the result of
  \<^verbatim>\<open>_check_pil_available()\<close>, a fact of the installation. The method returns
  \<^verbatim>\<open>output_path\<close>, which is the path of the recorded call.
\<close>

definition create_gif ::
  "converter \<Rightarrow> string \<Rightarrow> rat \<Rightarrow> int option \<Rightarrow> int \<Rightarrow> rat \<Rightarrow> rat option \<Rightarrow> bool \<Rightarrow> bool
     \<Rightarrow> py_error + writer_call" where
  "create_gif c output_path duration width fps start_time stop_time optimize pil_available =
     (case plan_of c duration width fps start_time stop_time of
        Inl e \<Rightarrow> Inl e
      | Inr p \<Rightarrow>
          let frames = collect_frames c (scale_factor p) (new_width p) (new_height p)
                         (frame_indices p)
          in if fps = 0 then Inl ZeroDivisionError
             else
               let frame_duration = 1 / of_int fps
               in if optimize \<and> pil_available
                  then save_optimized_gif frames output_path frame_duration
                  else Inr (Imageio_mimsave output_path frames frame_duration 0))"

text \<open>What a recorded writer call puts into the file.\<close>

fun written_frames :: "writer_call \<Rightarrow> frame list" where
  "written_frames (PIL_save path f0 save_all fs ms lp opt q) = f0 # fs"
| "written_frames (Imageio_mimsave path fs secs lp) = fs"

fun delay_seconds :: "writer_call \<Rightarrow> rat" where
  "delay_seconds (PIL_save path f0 save_all fs ms lp opt q) = ms / 1000"
| "delay_seconds (Imageio_mimsave path fs secs lp) = secs"

fun loop_count :: "writer_call \<Rightarrow> int" where
  "loop_count (PIL_save path f0 save_all fs ms lp opt q) = lp"
| "loop_count (Imageio_mimsave path fs secs lp) = lp"

subsection \<open>A concrete source: 1920x1080, 30 fps, 3600 frames (120 seconds)\<close>

definition hd_capture :: capture where
  "hd_capture = \<lparr> is_opened = True, prop_fps = 30, prop_frame_count = 3600,
                   prop_frame_width = 1920, prop_frame_height = 1080,
                   read_ok = (\<lambda>i. 0 \<le> i \<and> i < 3600) \<rparr>"

definition hd_video :: converter where
  "hd_video = \<lparr> self_cap = hd_capture, self_fps = 30, self_total_frames = 3600,
                 self_width = 1920, self_height = 1080, self_duration = 120 \<rparr>"

section \<open>Auxiliary facts\<close>

subsection \<open>Truncation\<close>




lemma py_int_of_int: "py_int (of_int n) = n"
  by (simp add: py_int_def)






subsection \<open>What a successful run has computed\<close>

lemma plan_of_resize:
  assumes "plan_of c duration width fps start_time stop_time = Inr p"
  shows "resize_params c width = Inr (scale_factor p, new_width p, new_height p)"
  using assms
  by (auto simp: plan_of_def Let_def split: if_splits sum.splits prod.splits)



lemma collect_frames_dims:
  "f \<in> set (collect_frames c 1 nw nh idxs) \<Longrightarrow>
     fwidth f = self_width c \<and> fheight f = self_height c"
  by (induction idxs) (auto simp: Let_def split: if_splits)

lemma save_optimized_gif_Inr:
  assumes "save_optimized_gif frames output_path frame_duration = Inr call"
  shows "written_frames call = frames \<and> delay_seconds call = frame_duration
           \<and> loop_count call = 0"
  using assms by (auto simp: save_optimized_gif_def split: list.splits)

lemma create_gif_Inr:
  assumes "create_gif c output_path duration width fps start_time stop_time optimize
             pil_available = Inr call"
  shows "\<exists>p. plan_of c duration width fps start_time stop_time = Inr p
           \<and> written_frames call =
               collect_frames c (scale_factor p) (new_width p) (new_height p)
                 (frame_indices p)
           \<and> delay_seconds call = 1 / of_int fps
           \<and> loop_count call = 0"
proof (cases "plan_of c duration width fps start_time stop_time")
  case (Inl e)
  with assms show ?thesis by (simp add: create_gif_def)
next
  case (Inr p)
  show ?thesis
  proof (cases "optimize \<and> pil_available")
    case True
    with assms Inr have "fps \<noteq> 0" and
      "save_optimized_gif
         (collect_frames c (scale_factor p) (new_width p) (new_height p) (frame_indices p))
         output_path (1 / of_int fps) = Inr call"
      by (auto simp: create_gif_def Let_def split: if_splits)
    from save_optimized_gif_Inr [OF this(2)] Inr show ?thesis by simp
  next
    case False
    with assms Inr show ?thesis
      by (auto simp: create_gif_def Let_def split: if_splits)
  qed
qed

subsection \<open>The concrete source is what the constructor builds\<close>

lemma init_hd_capture: "init hd_capture = Inr hd_video"
  by (simp add: init_def hd_capture_def hd_video_def py_int_def Let_def)

subsection \<open>A window that spans no source frame\<close>


section \<open>The claims\<close>




text \<open>
  C2. With \<open>duration = 0.05\<close> and \<open>fps = 10\<close> the output frame count is
  \<open>int(0.5) = 0\<close>, and line 82 divides the int \<open>effective_frames\<close> by it: the run ends
  in \<open>ZeroDivisionError\<close> before any index is sampled, whichever writer is asked for.
\<close>

theorem C2_zero_count_raises:
  "py_int ((1 / 20) * of_int 10) = 0
   \<and> plan_of hd_video (1 / 20) None 10 0 None = Inl ZeroDivisionError
   \<and> create_gif hd_video ''out.gif'' (1 / 20) None 10 0 None True True = Inl ZeroDivisionError
   \<and> create_gif hd_video ''out.gif'' (1 / 20) None 10 0 None False True = Inl ZeroDivisionError"
  by code_simp








text \<open>
  C5. Whenever the start time is not below the stop time after the stop time has been
  defaulted and clamped to the duration of the video, line 63 raises \<open>ValueError\<close>:
  neither the sampling of lines 81-87 nor anything after it is reached, for every
  value of the other arguments.
\<close>

theorem C5_window_validation:
  assumes "clamp_stop_time c stop_time \<le> start_time"
  shows "plan_of c duration width fps start_time stop_time = Inl ValueError
         \<and> create_gif c output_path duration width fps start_time stop_time optimize
             pil_available = Inl ValueError"
  using assms by (simp add: create_gif_def plan_of_def Let_def)

theorem C5_witness:
  "clamp_stop_time hd_video (Some 200) \<le> 120
   \<and> plan_of hd_video 3 None 10 120 (Some 200) = Inl ValueError
   \<and> create_gif hd_video ''out.gif'' 3 None 10 120 (Some 200) True True = Inl ValueError"
proof -
  have h: "clamp_stop_time hd_video (Some 200) \<le> 120" by code_simp
  from C5_window_validation [OF h] h show ?thesis by blast
qed

text \<open>
  C6. For the 120 second source at 30 fps and the request start 30, stop 90, duration 3,
  fps 10: \<open>effective_frames = 1800\<close>, \<open>output_frames_count = 30\<close>,
  \<open>frame_interval = 60\<close>, and the sampled indices are the 30 values
  900, 960, ..., 2640, 60 apart from frame 900.
\<close>

theorem C6_scenario:
  "self_fps hd_video = 30 \<and> self_duration hd_video = 120
   \<and> plan_of hd_video 3 None 10 30 (Some 90) =
       Inr \<lparr> clamped_stop_time = 90, effective_duration = 60,
             start_frame = 900, end_frame = 2700, effective_frames = 1800,
             scale_factor = 1, new_width = 1920, new_height = 1080,
             output_frames_count = 30, frame_interval = 60,
             frame_indices =
               [900, 960, 1020, 1080, 1140, 1200, 1260, 1320, 1380, 1440,
                1500, 1560, 1620, 1680, 1740, 1800, 1860, 1920, 1980, 2040,
                2100, 2160, 2220, 2280, 2340, 2400, 2460, 2520, 2580, 2640] \<rparr>"
  by code_simp



text \<open>
  C8. When the requested width is unset, or is at least the source width, the resize
  target is the source dimensions with scale factor 1, and every frame of a file that is
  written has exactly the source dimensions: nothing is resized or upscaled.
\<close>

theorem C8_no_upscaling:
  assumes "width = None \<or> (\<exists>w. width = Some w \<and> self_width c \<le> w)"
  shows "resize_params c width = Inr (1, self_width c, self_height c)
         \<and> (\<forall>call. create_gif c output_path duration width fps start_time stop_time optimize
                      pil_available = Inr call
               \<longrightarrow> (\<forall>f \<in> set (written_frames call).
                      fwidth f = self_width c \<and> fheight f = self_height c))"
proof -
  from assms have rp: "resize_params c width = Inr (1, self_width c, self_height c)"
    by (auto simp: resize_params_def)
  have "fwidth f = self_width c \<and> fheight f = self_height c"
    if run: "create_gif c output_path duration width fps start_time stop_time optimize
               pil_available = Inr call"
      and f: "f \<in> set (written_frames call)" for call f
  proof -
    from create_gif_Inr [OF run] obtain p where
      p: "plan_of c duration width fps start_time stop_time = Inr p"
      and fr: "written_frames call =
                 collect_frames c (scale_factor p) (new_width p) (new_height p) (frame_indices p)"
      by blast
    from plan_of_resize [OF p] rp have "scale_factor p = 1" by simp
    with f fr show ?thesis by (simp add: collect_frames_dims)
  qed
  with rp show ?thesis by blast
qed

theorem C8_witness:
  "(Some 4000 = (None :: int option) \<or> (\<exists>w. Some 4000 = Some w \<and> self_width hd_video \<le> w))
   \<and> resize_params hd_video (Some 4000) = Inr (1, self_width hd_video, self_height hd_video)
   \<and> create_gif hd_video ''out.gif'' 1 (Some 4000) 2 0 None True False =
       Inr (Imageio_mimsave ''out.gif'' [Frame 0 1920 1080, Frame 1800 1920 1080] (1 / 2) 0)
   \<and> fwidth (Frame 0 1920 1080) = self_width hd_video
   \<and> fheight (Frame 0 1920 1080) = self_height hd_video"
proof -
  have h: "Some 4000 = (None :: int option) \<or> (\<exists>w. Some 4000 = Some w \<and> self_width hd_video \<le> w)"
    by (simp add: hd_video_def)
  have run: "create_gif hd_video ''out.gif'' 1 (Some 4000) 2 0 None True False =
       Inr (Imageio_mimsave ''out.gif'' [Frame 0 1920 1080, Frame 1800 1920 1080] (1 / 2) 0)"
    by code_simp
  from C8_no_upscaling [OF h, of "''out.gif''" 1 2 0 None True False] h run
  show ?thesis by simp
qed



text \<open>
  C10. A requested width of 0 is falsy in \<^verbatim>\<open>if width and width < self.width\<close>, so it
  behaves exactly as an unset width: the resize target is the source dimensions with
  scale factor 1, the whole run gives the same result as with \<open>None\<close>, and the frames
  of a written file keep the source dimensions.
\<close>

theorem C10_zero_width_is_unset:
  "resize_params c (Some 0) = Inr (1, self_width c, self_height c)
   \<and> resize_params c (Some 0) = resize_params c None
   \<and> plan_of c duration (Some 0) fps start_time stop_time
       = plan_of c duration None fps start_time stop_time
   \<and> create_gif c output_path duration (Some 0) fps start_time stop_time optimize pil_available
       = create_gif c output_path duration None fps start_time stop_time optimize pil_available
   \<and> (create_gif c output_path duration (Some 0) fps start_time stop_time optimize
         pil_available = Inr call
       \<longrightarrow> (\<forall>f \<in> set (written_frames call).
              fwidth f = self_width c \<and> fheight f = self_height c))"
proof -
  have rp0: "resize_params c (Some 0) = Inr (1, self_width c, self_height c)"
    by (simp add: resize_params_def)
  have rp: "resize_params c (Some 0) = resize_params c None"
    by (simp add: resize_params_def)
  have pl: "plan_of c duration (Some 0) fps start_time stop_time
       = plan_of c duration None fps start_time stop_time"
    by (simp only: plan_of_def rp)
  have cg: "create_gif c output_path duration (Some 0) fps start_time stop_time optimize
               pil_available
       = create_gif c output_path duration None fps start_time stop_time optimize pil_available"
    by (simp only: create_gif_def pl)
  have "fwidth f = self_width c \<and> fheight f = self_height c"
    if run: "create_gif c output_path duration (Some 0) fps start_time stop_time optimize
               pil_available = Inr call"
      and f: "f \<in> set (written_frames call)" for f
  proof -
    from create_gif_Inr [OF run] obtain p where
      p: "plan_of c duration (Some 0) fps start_time stop_time = Inr p"
      and fr: "written_frames call =
                 collect_frames c (scale_factor p) (new_width p) (new_height p) (frame_indices p)"
      by blast
    from plan_of_resize [OF p] rp0 have "scale_factor p = 1" by simp
    with f fr show ?thesis by (simp add: collect_frames_dims)
  qed
  with rp0 rp pl cg show ?thesis by blast
qed

theorem C10_witness:
  "create_gif hd_video ''out.gif'' 1 (Some 0) 2 0 None True False =
     Inr (Imageio_mimsave ''out.gif'' [Frame 0 1920 1080, Frame 1800 1920 1080] (1 / 2) 0)
   \<and> create_gif hd_video ''out.gif'' 1 None 2 0 None True False =
     Inr (Imageio_mimsave ''out.gif'' [Frame 0 1920 1080, Frame 1800 1920 1080] (1 / 2) 0)
   \<and> fwidth (Frame 0 1920 1080) = self_width hd_video
   \<and> fheight (Frame 0 1920 1080) = self_height hd_video
   \<and> fwidth (Frame 1800 1920 1080) = self_width hd_video
   \<and> fheight (Frame 1800 1920 1080) = self_height hd_video"
proof -
  let ?call = "Imageio_mimsave ''out.gif'' [Frame 0 1920 1080, Frame 1800 1920 1080] (1 / 2) 0"
  have run: "create_gif hd_video ''out.gif'' 1 (Some 0) 2 0 None True False = Inr ?call"
    by code_simp
  from C10_zero_width_is_unset [of hd_video 1 2 0 None "''out.gif''" True False ?call] run
  show ?thesis by simp
qed

end
